theory Spec2Isabelle
  imports Main
begin

section \<open>Python values used by the relayer\<close>

text \<open>
  The event dictionaries of \<^verbatim>\<open>script.py\<close> hold Python values. Three shapes matter to
  the code: \<^verbatim>\<open>None\<close> (also what \<^verbatim>\<open>dict.get\<close> returns for a missing key), integers
  (chain ids, amounts, block numbers) and strings (addresses).
\<close>

datatype pyval = PyNone | PyInt int | PyStr string

text \<open>Truth value of a Python object, as \<^verbatim>\<open>all([...])\<close> and \<^verbatim>\<open>if x:\<close> read it.\<close>

fun truthy :: "pyval \<Rightarrow> bool" where
  "truthy PyNone = False"
| "truthy (PyInt n) = (n \<noteq> 0)"
| "truthy (PyStr s) = (s \<noteq> [])"

text \<open>\<^verbatim>\<open>v != d\<close> for an integer \<open>d\<close>: \<^verbatim>\<open>None\<close> and strings differ from every integer.\<close>

fun py_ne_int :: "pyval \<Rightarrow> int \<Rightarrow> bool" where
  "py_ne_int (PyInt n) d = (n \<noteq> d)"
| "py_ne_int PyNone d = True"
| "py_ne_int (PyStr s) d = True"

text \<open>\<^verbatim>\<open>d.get(k)\<close> on a dictionary.\<close>

definition dict_get :: "(string \<rightharpoonup> pyval) \<Rightarrow> string \<Rightarrow> pyval" where
  "dict_get d k = (case d k of None \<Rightarrow> PyNone | Some v \<Rightarrow> v)"

text \<open>
  A \<^verbatim>\<open>HexBytes\<close> value (a transaction hash) is represented by the string its
  \<^verbatim>\<open>.hex()\<close> method returns.
\<close>

datatype hexbytes = HexBytes (hex: string)

text \<open>Truth value of an \<^verbatim>\<open>Optional[str]\<close>: \<^verbatim>\<open>None\<close> and the empty string are false.\<close>

fun truthy_str :: "string option \<Rightarrow> bool" where
  "truthy_str None = False"
| "truthy_str (Some s) = (s \<noteq> [])"

section \<open>Source events\<close>

text \<open>
  A log entry delivered by the event filter. \<^verbatim>\<open>event['transactionHash']\<close> and
  \<^verbatim>\<open>event['args']\<close> are always present in a decoded log;
  \<^verbatim>\<open>event.get('blockNumber')\<close> is \<open>None\<close> when the key is absent or its value is
  \<^verbatim>\<open>None\<close> (a pending log).
\<close>

record event =
  transactionHash :: hexbytes
  blockNumber :: "int option"
  args :: "string \<rightharpoonup> pyval"

section \<open>StateDB: the file-backed list of processed hashes\<close>

text \<open>
  A JSON value as \<^verbatim>\<open>json.load\<close> returns it. A number is given by its literal: numbers
  matter here only as values that are neither objects nor lists nor strings. An object is
  the list of its members in the order of the document.
\<close>

datatype json =
    JNull
  | JBool bool
  | JNum string
  | JStr string
  | JArr "json list"
  | JObj "(string \<times> json) list"

text \<open>\<^verbatim>\<open>data.get(k)\<close> on the dictionary of a JSON object: of two members with the same
  key, \<^verbatim>\<open>json.load\<close> keeps the later one.\<close>

definition json_get :: "(string \<times> json) list \<Rightarrow> string \<Rightarrow> json option" where
  "json_get members k = map_of (rev members) k"

text \<open>A loaded value read as the \<^verbatim>\<open>List[str]\<close> that \<^verbatim>\<open>_load\<close> is annotated to return.\<close>

fun as_str :: "json \<Rightarrow> string option" where
  "as_str (JStr s) = Some s"
| "as_str JNull = None"
| "as_str (JBool b) = None"
| "as_str (JNum n) = None"
| "as_str (JArr xs) = None"
| "as_str (JObj members) = None"

fun as_hash_list :: "json \<Rightarrow> string list option" where
  "as_hash_list (JArr xs) = those (map as_str xs)"
| "as_hash_list JNull = None"
| "as_hash_list (JBool b) = None"
| "as_hash_list (JNum n) = None"
| "as_hash_list (JStr s) = None"
| "as_hash_list (JObj members) = None"

text \<open>The exceptions that matter at startup. \<^verbatim>\<open>IOError\<close> stands for \<^verbatim>\<open>OSError\<close> and its
  subclasses.\<close>

datatype py_exception =
  IOError | JSONDecodeError | UnicodeDecodeError | RecursionError | AttributeError

text \<open>
  What the state file can look like to \<^verbatim>\<open>_load\<close>:
  \<^item> \<open>Missing\<close>: \<^verbatim>\<open>os.path.exists\<close> is false;
  \<^item> \<open>ReadRaises e\<close>: the file exists and \<^verbatim>\<open>open\<close> or \<^verbatim>\<open>json.load\<close> raises \<open>e\<close>:
    \<^verbatim>\<open>IOError\<close> for a file that cannot be opened or read, \<^verbatim>\<open>JSONDecodeError\<close> for text
    that is not JSON, \<^verbatim>\<open>UnicodeDecodeError\<close> for bytes that are not text in the file's
    encoding, \<^verbatim>\<open>RecursionError\<close> for a document nested too deeply;
  \<^item> \<open>Parsed d\<close>: the content is the JSON document \<open>d\<close>.
\<close>

datatype file_state = Missing | ReadRaises py_exception | Parsed json

type_synonym filesystem = "string \<Rightarrow> file_state"

record StateDB =
  filepath :: string
  processed_hashes :: "string list"

text \<open>The clause \<^verbatim>\<open>except (IOError, json.JSONDecodeError)\<close> of \<^verbatim>\<open>_load\<close>.\<close>

fun caught_by_load :: "py_exception \<Rightarrow> bool" where
  "caught_by_load IOError = True"
| "caught_by_load JSONDecodeError = True"
| "caught_by_load UnicodeDecodeError = False"
| "caught_by_load RecursionError = False"
| "caught_by_load AttributeError = False"

text \<open>
  What \<^verbatim>\<open>_load\<close> does when it does not return a list of strings: it raises an exception
  that its \<^verbatim>\<open>except\<close> clause does not catch, or it returns the value found under
  \<^verbatim>\<open>processed_hashes\<close> although that value is not a list of strings (null, a string, a
  number, a list with other elements): the code does not check it.
\<close>

datatype load_anomaly = Raised py_exception | NotHashList json

text \<open>
  \<^verbatim>\<open>StateDB._load\<close>. A missing file gives the empty list. An exception of the
  \<^verbatim>\<open>try\<close> block that the \<^verbatim>\<open>except\<close> clause names is logged and gives the empty list; any
  other leaves the method. \<^verbatim>\<open>data.get\<close> on a document that is not an object raises
  \<^verbatim>\<open>AttributeError\<close>, which the clause does not name. On an object the result is the
  value under \<^verbatim>\<open>processed_hashes\<close>, or the empty list when there is no such key.
\<close>

definition StateDB_load :: "filesystem \<Rightarrow> string \<Rightarrow> load_anomaly + string list" where
  "StateDB_load fs path =
     (case fs path of
        Missing \<Rightarrow> Inr []
      | ReadRaises e \<Rightarrow> if caught_by_load e then Inr [] else Inl (Raised e)
      | Parsed data \<Rightarrow>
          (case data of
             JObj members \<Rightarrow>
               (case json_get members ''processed_hashes'' of
                  None \<Rightarrow> Inr []
                | Some v \<Rightarrow>
                    (case as_hash_list v of
                       Some hs \<Rightarrow> Inr hs
                     | None \<Rightarrow> Inl (NotHashList v)))
           | JNull \<Rightarrow> Inl (Raised AttributeError)
           | JBool b \<Rightarrow> Inl (Raised AttributeError)
           | JNum n \<Rightarrow> Inl (Raised AttributeError)
           | JStr s \<Rightarrow> Inl (Raised AttributeError)
           | JArr xs \<Rightarrow> Inl (Raised AttributeError)))"

text \<open>
  \<^verbatim>\<open>StateDB.__init__\<close> assigns what \<^verbatim>\<open>_load\<close> returns: an exception of \<^verbatim>\<open>_load\<close> leaves
  the constructor, a list of strings gives a \<open>StateDB\<close>, and a value that is not a list
  of strings gives an object outside the annotated type, which the record \<open>StateDB\<close>
  (and so \<open>is_processed\<close> and \<open>mark_as_processed\<close> below) does not cover.
\<close>

definition StateDB_init :: "filesystem \<Rightarrow> string \<Rightarrow> load_anomaly + StateDB" where
  "StateDB_init fs path =
     (case StateDB_load fs path of
        Inl anomaly \<Rightarrow> Inl anomaly
      | Inr hs \<Rightarrow> Inr \<lparr>filepath = path, processed_hashes = hs\<rparr>)"

text \<open>
  What happens when \<^verbatim>\<open>_save\<close> writes the file: the write completes; or
  \<^verbatim>\<open>open(..., 'w')\<close> raises \<^verbatim>\<open>IOError\<close> and the file is untouched; or the file was
  truncated by \<^verbatim>\<open>open\<close> and \<^verbatim>\<open>json.dump\<close> raises \<^verbatim>\<open>IOError\<close> before the document is
  complete, which leaves text that is not JSON. The two failures are caught and logged by
  \<^verbatim>\<open>_save\<close>. A completed write leaves the object
  \<^verbatim>\<open>{"processed_hashes": [...]}\<close>.
\<close>

datatype write_outcome = Written | OpenFails | WriteFails

definition StateDB_save :: "write_outcome \<Rightarrow> StateDB \<Rightarrow> filesystem \<Rightarrow> filesystem" where
  "StateDB_save io db fs =
     (case io of
        Written \<Rightarrow>
          fs (filepath db :=
                Parsed (JObj [(''processed_hashes'', JArr (map JStr (processed_hashes db)))]))
      | OpenFails \<Rightarrow> fs
      | WriteFails \<Rightarrow> fs (filepath db := ReadRaises JSONDecodeError))"

definition is_processed :: "StateDB \<Rightarrow> string \<Rightarrow> bool" where
  "is_processed db tx_hash = (tx_hash \<in> set (processed_hashes db))"

text \<open>
  \<^verbatim>\<open>StateDB.mark_as_processed\<close>: append and save unless the hash is already in the list.
  It returns nothing; the model returns the updated object and file system.
\<close>

definition mark_as_processed ::
    "write_outcome \<Rightarrow> StateDB \<Rightarrow> filesystem \<Rightarrow> string \<Rightarrow> StateDB \<times> filesystem" where
  "mark_as_processed io db fs tx_hash =
     (if \<not> is_processed db tx_hash
      then (let db' = db \<lparr>processed_hashes := processed_hashes db @ [tx_hash]\<rparr>
            in (db', StateDB_save io db' fs))
      else (db, fs))"

text \<open>The in-memory list is what a fresh \<^verbatim>\<open>StateDB\<close> would load from the file.\<close>

definition in_sync :: "StateDB \<Rightarrow> filesystem \<Rightarrow> bool" where
  "in_sync db fs = (StateDB_load fs (filepath db) = Inr (processed_hashes db))"

section \<open>EventProcessor\<close>

record EventProcessor =
  state_db :: StateDB
  destination_chain_id :: int

record prepared_tx =
  recipient :: pyval
  amount :: pyval
  source_tx_hash :: hexbytes
  original_event :: event

text \<open>
  The three places where \<^verbatim>\<open>process_event\<close> logs and returns \<^verbatim>\<open>None\<close>, in the order of
  the source: the hash is already in the state DB; the event is for a different chain;
  recipient or amount is missing (or false).
\<close>

datatype skip_reason = AlreadyProcessed | DifferentChain | MissingArguments

definition process_event_branch :: "EventProcessor \<Rightarrow> event \<Rightarrow> skip_reason + prepared_tx" where
  "process_event_branch p ev =
     (let tx_hash = hex (transactionHash ev) in
      if is_processed (state_db p) tx_hash then Inl AlreadyProcessed
      else
        let event_args = args ev in
        if py_ne_int (dict_get event_args ''destinationChainId'') (destination_chain_id p)
        then Inl DifferentChain
        else
          let r = dict_get event_args ''recipient'';
              a = dict_get event_args ''amount'' in
          if \<not> (truthy r \<and> truthy a) then Inl MissingArguments
          else Inr \<lparr>recipient = r, amount = a,
                    source_tx_hash = transactionHash ev, original_event = ev\<rparr>)"

text \<open>\<^verbatim>\<open>EventProcessor.process_event\<close>: the prepared transaction, or \<^verbatim>\<open>None\<close>.\<close>

definition process_event :: "EventProcessor \<Rightarrow> event \<Rightarrow> prepared_tx option" where
  "process_event p ev =
     (case process_event_branch p ev of Inl why \<Rightarrow> None | Inr tx \<Rightarrow> Some tx)"

section \<open>TransactionBroadcaster\<close>

record TransactionBroadcaster =
  account_address :: string
  private_key :: string
  simulate_only :: bool

text \<open>The reply of the gas station API to \<^verbatim>\<open>requests.get\<close>: a \<^verbatim>\<open>RequestException\<close>, or a
  JSON body whose \<^verbatim>\<open>fast.maxFee\<close> field (in gwei) may be absent.\<close>

datatype oracle_reply = RequestFails | Reply "int option"

text \<open>\<^verbatim>\<open>Web3.to_wei(x, 'gwei')\<close>.\<close>

definition to_wei_gwei :: "int \<Rightarrow> int" where
  "to_wei_gwei g = g * 1000000000"

text \<open>\<^verbatim>\<open>TransactionBroadcaster.get_gas_price_from_api\<close>.\<close>

definition get_gas_price_from_api :: "oracle_reply \<Rightarrow> int option" where
  "get_gas_price_from_api api =
     (case api of
        RequestFails \<Rightarrow> None
      | Reply None \<Rightarrow> None
      | Reply (Some gas_price_gwei) \<Rightarrow>
          (if gas_price_gwei \<noteq> 0 then Some (to_wei_gwei gas_price_gwei) else None))"

record receipt =
  status :: int
  receipt_block :: int

text \<open>
  What the outside world answers during one call of \<^verbatim>\<open>broadcast\<close>; \<open>None\<close> stands for
  a call that raises. \<open>receipt_reply = None\<close> is the \<^verbatim>\<open>TimeExhausted\<close> of
  \<^verbatim>\<open>wait_for_transaction_receipt(tx_hash, timeout=120)\<close>. The gas station is part of the
  world as well.
\<close>

record dest_node =
  transaction_count :: "int option"
  gas_price :: "int option"
  signed_hash :: "hexbytes option"
  send_reply :: "hexbytes option"
  receipt_reply :: "receipt option"
  gas_station :: oracle_reply

text \<open>The transaction built for \<^verbatim>\<open>mintBridgedTokens\<close>.\<close>

record tx_payload =
  mint_recipient :: pyval
  mint_amount :: pyval
  mint_source_tx_hash :: hexbytes
  tx_from :: string
  tx_nonce :: int
  tx_gas :: int
  tx_gasPrice :: int

definition build_transaction ::
    "TransactionBroadcaster \<Rightarrow> dest_node \<Rightarrow> prepared_tx \<Rightarrow> tx_payload option" where
  "build_transaction b node tx_data =
     (case transaction_count node of
        None \<Rightarrow> None
      | Some nonce \<Rightarrow>
          (case gas_price node of
             None \<Rightarrow> None
           | Some gp \<Rightarrow>
               Some \<lparr>mint_recipient = recipient tx_data,
                     mint_amount = amount tx_data,
                     mint_source_tx_hash = source_tx_hash tx_data,
                     tx_from = account_address b,
                     tx_nonce = nonce,
                     tx_gas = 200000,
                     tx_gasPrice = gp\<rparr>))"

text \<open>
  \<^verbatim>\<open>TransactionBroadcaster.broadcast\<close>. The result is the returned hash together with
  the transactions handed to \<^verbatim>\<open>send_raw_transaction\<close> during the call (none or one).
  Every exception inside the \<^verbatim>\<open>try\<close> block ends in \<^verbatim>\<open>return None\<close>.
\<close>

definition broadcast ::
    "TransactionBroadcaster \<Rightarrow> dest_node \<Rightarrow> prepared_tx \<Rightarrow> string option \<times> tx_payload list" where
  "broadcast b node tx_data =
     (case build_transaction b node tx_data of
        None \<Rightarrow> (None, [])
      | Some tx \<Rightarrow>
          (case signed_hash node of
             None \<Rightarrow> (None, [])
           | Some sh \<Rightarrow>
               if simulate_only b then (Some (hex sh), [])
               else
                 (case send_reply node of
                    None \<Rightarrow> (None, [tx])
                  | Some tx_hash \<Rightarrow>
                      (case receipt_reply node of
                         None \<Rightarrow> (None, [tx])
                       | Some r \<Rightarrow>
                           if status r = 1 then (Some (hex tx_hash), [tx])
                           else (None, [tx])))))"

section \<open>BridgeContractListener\<close>

record BridgeContractListener =
  event_processor :: EventProcessor
  dest_broadcaster :: TransactionBroadcaster
  poll_interval :: int
  confirmation_blocks :: int

text \<open>Everything outside the process that the loop changes: the files and the
  transactions submitted to the destination chain.\<close>

record world =
  files :: filesystem
  submitted :: "tx_payload list"

text \<open>What the outside world does while one event is handled.\<close>

record responses =
  node :: dest_node
  disk :: write_outcome

text \<open>The test of the confirmation \<^verbatim>\<open>if\<close> in \<^verbatim>\<open>run\<close>:
  \<^verbatim>\<open>event_block and (latest_block - event_block) < self.confirmation_blocks\<close>.\<close>

definition too_recent :: "BridgeContractListener \<Rightarrow> int \<Rightarrow> event \<Rightarrow> bool" where
  "too_recent l latest_block ev =
     (case blockNumber ev of
        None \<Rightarrow> False
      | Some event_block \<Rightarrow>
          event_block \<noteq> 0 \<and> latest_block - event_block < confirmation_blocks l)"

text \<open>The pipeline after the confirmation test: \<^verbatim>\<open>process_event\<close>, \<^verbatim>\<open>broadcast\<close>,
  \<^verbatim>\<open>mark_as_processed\<close> (lines 309 to 315).\<close>

definition relay_event ::
    "BridgeContractListener \<Rightarrow> responses \<Rightarrow> world \<Rightarrow> event \<Rightarrow> BridgeContractListener \<times> world" where
  "relay_event l env w ev =
     (case process_event (event_processor l) ev of
        None \<Rightarrow> (l, w)
      | Some prepared \<Rightarrow>
          (let (broadcast_hash, sent) = broadcast (dest_broadcaster l) (node env) prepared;
               w1 = w \<lparr>submitted := submitted w @ sent\<rparr>
           in if truthy_str broadcast_hash
              then (let (db', fs') =
                          mark_as_processed (disk env) (state_db (event_processor l)) (files w1)
                            (hex (source_tx_hash prepared))
                    in (l \<lparr>event_processor := (event_processor l) \<lparr>state_db := db'\<rparr>\<rparr>,
                        w1 \<lparr>files := fs'\<rparr>))
              else (l, w1)))"

text \<open>The body of the \<^verbatim>\<open>for event in events\<close> loop.\<close>

definition handle_event ::
    "BridgeContractListener \<Rightarrow> int \<Rightarrow> responses \<Rightarrow> world \<Rightarrow> event \<Rightarrow> BridgeContractListener \<times> world" where
  "handle_event l latest_block env w ev =
     (if too_recent l latest_block ev then (l, w) else relay_event l env w ev)"

text \<open>The \<^verbatim>\<open>for\<close> loop over the entries of one poll, each with the world's responses.\<close>

fun drain ::
    "BridgeContractListener \<Rightarrow> int \<Rightarrow> world \<Rightarrow> (event \<times> responses) list \<Rightarrow> BridgeContractListener \<times> world" where
  "drain l latest_block w [] = (l, w)"
| "drain l latest_block w ((ev, env) # rest) =
     (case handle_event l latest_block env w ev of
        (l', w') \<Rightarrow> drain l' latest_block w' rest)"

text \<open>
  One turn of the \<^verbatim>\<open>while\<close> loop of \<^verbatim>\<open>run\<close>: either reading the block number or the
  filter raises (the \<^verbatim>\<open>except\<close> clauses sleep and go on), or the poll returns the latest
  block and the filter's new entries. \<^verbatim>\<open>get_new_entries\<close> is the filter's call; the
  entries it returns are those of this list.
\<close>

datatype poll = PollRaises | Polled int "(event \<times> responses) list"

fun run ::
    "BridgeContractListener \<Rightarrow> world \<Rightarrow> poll list \<Rightarrow> BridgeContractListener \<times> world" where
  "run l w [] = (l, w)"
| "run l w (PollRaises # polls) = run l w polls"
| "run l w (Polled latest_block events # polls) =
     (case drain l latest_block w events of (l', w') \<Rightarrow> run l' w' polls)"

section \<open>Concrete values for the examples\<close>

definition deposit_args :: "string \<rightharpoonup> pyval" where
  "deposit_args =
     [''recipient'' \<mapsto> PyStr ''0xR'', ''amount'' \<mapsto> PyInt 50,
      ''destinationChainId'' \<mapsto> PyInt 137]"

definition deposit :: "int option \<Rightarrow> event" where
  "deposit blk = \<lparr>transactionHash = HexBytes ''aa'', blockNumber = blk, args = deposit_args\<rparr>"

definition empty_db :: StateDB where
  "empty_db = \<lparr>filepath = ''processed_events_db.json'', processed_hashes = []\<rparr>"

definition relayer :: "bool \<Rightarrow> BridgeContractListener" where
  "relayer simulate =
     \<lparr>event_processor = \<lparr>state_db = empty_db, destination_chain_id = 137\<rparr>,
      dest_broadcaster =
        \<lparr>account_address = ''0xA'', private_key = ''k'', simulate_only = simulate\<rparr>,
      poll_interval = 10,
      confirmation_blocks = 6\<rparr>"

definition no_files :: filesystem where
  "no_files = (\<lambda>path. Missing)"

definition fresh_world :: world where
  "fresh_world = \<lparr>files = no_files, submitted = []\<rparr>"

definition node_with :: "receipt option \<Rightarrow> dest_node" where
  "node_with r =
     \<lparr>transaction_count = Some 7, gas_price = Some 30000000000,
      signed_hash = Some (HexBytes ''51''), send_reply = Some (HexBytes ''d1''),
      receipt_reply = r, gas_station = Reply (Some 50)\<rparr>"

definition confirmed_node :: dest_node where
  "confirmed_node = node_with (Some \<lparr>status = 1, receipt_block = 900\<rparr>)"

definition failed_node :: dest_node where
  "failed_node = node_with (Some \<lparr>status = 0, receipt_block = 900\<rparr>)"

definition timeout_node :: dest_node where
  "timeout_node = node_with None"

text \<open>The prepared transaction, the mint transaction and the state after the deposit
  \<open>aa\<close> has been relayed and recorded.\<close>

definition deposit_tx :: "int option \<Rightarrow> prepared_tx" where
  "deposit_tx blk =
     \<lparr>recipient = PyStr ''0xR'', amount = PyInt 50, source_tx_hash = HexBytes ''aa'',
      original_event = deposit blk\<rparr>"

definition mint_payload :: tx_payload where
  "mint_payload =
     \<lparr>mint_recipient = PyStr ''0xR'', mint_amount = PyInt 50,
      mint_source_tx_hash = HexBytes ''aa'', tx_from = ''0xA'',
      tx_nonce = 7, tx_gas = 200000, tx_gasPrice = 30000000000\<rparr>"

definition recorded_db :: StateDB where
  "recorded_db = empty_db \<lparr>processed_hashes := [''aa'']\<rparr>"

definition recorded :: "BridgeContractListener \<Rightarrow> BridgeContractListener" where
  "recorded l = l \<lparr>event_processor := (event_processor l) \<lparr>state_db := recorded_db\<rparr>\<rparr>"

definition recorded_files :: filesystem where
  "recorded_files =
     no_files (''processed_events_db.json'' :=
                 Parsed (JObj [(''processed_hashes'', JArr [JStr ''aa''])]))"

text \<open>A deposit for chain 1, seen by a relayer configured for chain 137.\<close>

definition misrouted :: event where
  "misrouted =
     \<lparr>transactionHash = HexBytes ''bb'', blockNumber = Some 100,
      args = [''destinationChainId'' \<mapsto> PyInt 1]\<rparr>"

text \<open>A listener whose state DB already holds the hash \<open>bb\<close> of that deposit.\<close>

definition seen_before :: "BridgeContractListener \<Rightarrow> BridgeContractListener" where
  "seen_before l =
     l \<lparr>event_processor :=
          (event_processor l) \<lparr>state_db := empty_db \<lparr>processed_hashes := [''bb'']\<rparr>\<rparr>\<rparr>"

text \<open>The pipeline run twice on the same event, the world answering \<open>env1\<close> the first
  time and \<open>env2\<close> the second.\<close>

definition relay_twice ::
    "BridgeContractListener \<Rightarrow> responses \<Rightarrow> responses \<Rightarrow> world \<Rightarrow> event \<Rightarrow> BridgeContractListener \<times> world" where
  "relay_twice l env1 env2 w ev =
     (case relay_event l env1 w ev of (l1, w1) \<Rightarrow> relay_event l1 env2 w1 ev)"

section \<open>Facts about the components\<close>

lemma py_ne_int_iff: "py_ne_int v d \<longleftrightarrow> v \<noteq> PyInt d"
  by (cases v) auto

lemma those_as_str_map: "those (map (as_str \<circ> JStr) hs) = Some hs"
  by (induction hs) simp_all

lemma as_hash_list_strings: "as_hash_list (JArr (map JStr hs)) = Some hs"
  by (simp add: those_as_str_map)

lemma those_Nil_iff: "those xs = Some [] \<longleftrightarrow> xs = []"
  by (cases xs) (auto split: option.splits)

lemma as_hash_list_empty_iff: "as_hash_list v = Some [] \<longleftrightarrow> v = JArr []"
  by (cases v) (simp_all add: those_Nil_iff)

lemma caught_by_load_iff: "caught_by_load e \<longleftrightarrow> e = IOError \<or> e = JSONDecodeError"
  by (cases e) simp_all

lemma StateDB_load_empty_iff:
  "StateDB_load fs path = Inr [] \<longleftrightarrow>
     fs path = Missing \<or> fs path = ReadRaises IOError \<or> fs path = ReadRaises JSONDecodeError
     \<or> (\<exists>members. fs path = Parsed (JObj members)
           \<and> (json_get members ''processed_hashes'' = None
                \<or> json_get members ''processed_hashes'' = Some (JArr [])))"
proof (cases "fs path")
  case Missing
  then show ?thesis by (simp add: StateDB_load_def)
next
  case (ReadRaises e)
  then show ?thesis by (auto simp: StateDB_load_def caught_by_load_iff)
next
  case (Parsed d)
  then show ?thesis
    by (cases d)
       (auto simp: StateDB_load_def as_hash_list_empty_iff split: option.splits)
qed

lemma StateDB_load_raises_iff:
  "StateDB_load fs path = Inl (Raised e) \<longleftrightarrow>
     (fs path = ReadRaises e \<and> e \<noteq> IOError \<and> e \<noteq> JSONDecodeError)
     \<or> (e = AttributeError \<and> (\<exists>d. fs path = Parsed d \<and> (\<forall>members. d \<noteq> JObj members)))"
proof (cases "fs path")
  case Missing
  then show ?thesis by (simp add: StateDB_load_def)
next
  case (ReadRaises e')
  then show ?thesis by (auto simp: StateDB_load_def caught_by_load_iff)
next
  case (Parsed d)
  then show ?thesis
    by (cases d) (auto simp: StateDB_load_def split: option.splits)
qed

lemma StateDB_load_unchecked_iff:
  "StateDB_load fs path = Inl (NotHashList v) \<longleftrightarrow>
     (\<exists>members. fs path = Parsed (JObj members)
        \<and> json_get members ''processed_hashes'' = Some v \<and> as_hash_list v = None)"
proof (cases "fs path")
  case Missing
  then show ?thesis by (simp add: StateDB_load_def)
next
  case (ReadRaises e)
  then show ?thesis by (simp add: StateDB_load_def)
next
  case (Parsed d)
  then show ?thesis
    by (cases d) (auto simp: StateDB_load_def split: option.splits)
qed

lemma StateDB_init_in_sync:
  "StateDB_init fs path = Inr db \<Longrightarrow> in_sync db fs"
  by (auto simp: StateDB_init_def in_sync_def split: sum.splits)

lemma count_list_distinct:
  "distinct xs \<Longrightarrow> count_list xs x = (if x \<in> set xs then 1 else 0)"
  by (induction xs) auto




lemma mark_as_processed_filepath:
  "filepath (fst (mark_as_processed io db fs h)) = filepath db"
  by (simp add: mark_as_processed_def Let_def)



section \<open>Loading the state file at startup\<close>

text \<open>
  Claim C4, as the code has it. \<^verbatim>\<open>StateDB(path)\<close> starts with the empty list not only
  when the state file does not exist: it does so as well when reading the file raises
  \<^verbatim>\<open>IOError\<close> and when the content is not parseable JSON (\<^verbatim>\<open>JSONDecodeError\<close>), both of
  which are logged, and when the JSON object has no \<^verbatim>\<open>processed_hashes\<close> key or an empty
  list under it. Construction fails with an exception exactly when reading raises an
  exception other than these two (\<^verbatim>\<open>UnicodeDecodeError\<close> for a file that is not text,
  for one) or the file parses as a JSON value that is not an object
  (\<^verbatim>\<open>AttributeError\<close>). A value under \<^verbatim>\<open>processed_hashes\<close> that is not a list of strings is
  taken over as it is.
\<close>

theorem StateDB_init_empty_or_fatal:
  "(StateDB_init fs path = Inr \<lparr>filepath = path, processed_hashes = []\<rparr> \<longleftrightarrow>
      fs path = Missing \<or> fs path = ReadRaises IOError \<or> fs path = ReadRaises JSONDecodeError
      \<or> (\<exists>members. fs path = Parsed (JObj members)
            \<and> (json_get members ''processed_hashes'' = None
                 \<or> json_get members ''processed_hashes'' = Some (JArr []))))
   \<and> (StateDB_init fs path = Inl (Raised e) \<longleftrightarrow>
        (fs path = ReadRaises e \<and> e \<noteq> IOError \<and> e \<noteq> JSONDecodeError)
        \<or> (e = AttributeError \<and> (\<exists>d. fs path = Parsed d \<and> (\<forall>members. d \<noteq> JObj members))))
   \<and> (StateDB_init fs path = Inl (NotHashList v) \<longleftrightarrow>
        (\<exists>members. fs path = Parsed (JObj members)
           \<and> json_get members ''processed_hashes'' = Some v \<and> as_hash_list v = None))"
proof -
  have a: "StateDB_init fs path = Inr \<lparr>filepath = path, processed_hashes = []\<rparr> \<longleftrightarrow>
             StateDB_load fs path = Inr []"
    by (simp add: StateDB_init_def split: sum.splits)
  have b: "StateDB_init fs path = Inl x \<longleftrightarrow> StateDB_load fs path = Inl x" for x
    by (simp add: StateDB_init_def split: sum.splits)
  show ?thesis
    unfolding a b StateDB_load_empty_iff StateDB_load_raises_iff StateDB_load_unchecked_iff
    by simp
qed

text \<open>
  Claim C4 as stated fails: a state file that exists but holds unparseable JSON, or that
  cannot be read, gives a relayer that starts with the empty list.
\<close>

theorem StateDB_init_unreadable_not_fatal:
  "StateDB_init (no_files (''processed_events_db.json'' := ReadRaises JSONDecodeError))
     ''processed_events_db.json'' = Inr empty_db
   \<and> StateDB_init (no_files (''processed_events_db.json'' := ReadRaises IOError))
     ''processed_events_db.json'' = Inr empty_db"
  by (simp add: StateDB_init_def StateDB_load_def empty_db_def no_files_def)

text \<open>Two starts that are not empty stores: a state file that is not text is fatal, and
  \<^verbatim>\<open>{"processed_hashes": null}\<close> is taken over unchecked.\<close>

lemma StateDB_init_not_text_fatal:
  "StateDB_init (no_files (''processed_events_db.json'' := ReadRaises UnicodeDecodeError))
     ''processed_events_db.json'' = Inl (Raised UnicodeDecodeError)"
  by (simp add: StateDB_init_def StateDB_load_def no_files_def)

lemma StateDB_init_null_unchecked:
  "StateDB_init (no_files (''processed_events_db.json'' :=
                   Parsed (JObj [(''processed_hashes'', JNull)])))
     ''processed_events_db.json'' = Inl (NotHashList JNull)"
  by (simp add: StateDB_init_def StateDB_load_def no_files_def json_get_def)

section \<open>Recording a hash\<close>




section \<open>Facts about the pipeline\<close>

lemma process_event_Some_iff:
  "process_event p ev = Some tx \<longleftrightarrow>
     \<not> is_processed (state_db p) (hex (transactionHash ev))
     \<and> dict_get (args ev) ''destinationChainId'' = PyInt (destination_chain_id p)
     \<and> truthy (dict_get (args ev) ''recipient'')
     \<and> truthy (dict_get (args ev) ''amount'')
     \<and> tx = \<lparr>recipient = dict_get (args ev) ''recipient'',
              amount = dict_get (args ev) ''amount'',
              source_tx_hash = transactionHash ev, original_event = ev\<rparr>"
  by (auto simp: process_event_def process_event_branch_def Let_def py_ne_int_iff)

lemma process_event_source_hash:
  "process_event p ev = Some tx \<Longrightarrow> source_tx_hash tx = transactionHash ev"
  by (simp add: process_event_Some_iff)

lemma process_event_processed:
  "is_processed (state_db p) (hex (transactionHash ev)) \<Longrightarrow> process_event p ev = None"
  by (simp add: process_event_def process_event_branch_def)

lemma broadcast_Some_iff:
  "fst (broadcast b nd tx) = Some h \<longleftrightarrow>
     (\<exists>p sh. build_transaction b nd tx = Some p \<and> signed_hash nd = Some sh \<and>
        (if simulate_only b then h = hex sh
         else \<exists>th r. send_reply nd = Some th \<and> receipt_reply nd = Some r \<and> status r = 1
                \<and> h = hex th))"
  by (auto simp: broadcast_def split: option.splits)

lemma broadcast_sent_le: "length (snd (broadcast b nd tx)) \<le> 1"
  by (simp add: broadcast_def split: option.splits)

lemma truthy_str_iff: "truthy_str x \<longleftrightarrow> (\<exists>h. x = Some h \<and> h \<noteq> [])"
  by (cases x) auto

lemma broadcast_failed_or_timeout:
  assumes "\<not> simulate_only b"
      and "receipt_reply nd = None \<or> (\<exists>r. receipt_reply nd = Some r \<and> status r \<noteq> 1)"
  shows "fst (broadcast b nd tx) = None"
  using assms by (auto simp: broadcast_def split: option.splits)

lemma relay_event_None:
  "process_event (event_processor l) ev = None \<Longrightarrow> relay_event l env w ev = (l, w)"
  by (simp add: relay_event_def)

lemma relay_event_not_committed:
  assumes "process_event (event_processor l) ev = Some tx"
      and "\<not> truthy_str (fst (broadcast (dest_broadcaster l) (node env) tx))"
  shows "relay_event l env w ev =
           (l, w \<lparr>submitted := submitted w @ snd (broadcast (dest_broadcaster l) (node env) tx)\<rparr>)"
  using assms by (simp add: relay_event_def split_beta Let_def)

lemma relay_event_committed:
  assumes "process_event (event_processor l) ev = Some tx"
      and "truthy_str (fst (broadcast (dest_broadcaster l) (node env) tx))"
  shows "relay_event l env w ev =
           (l \<lparr>event_processor := (event_processor l)
                \<lparr>state_db := (state_db (event_processor l))
                   \<lparr>processed_hashes :=
                      processed_hashes (state_db (event_processor l)) @ [hex (transactionHash ev)]\<rparr>\<rparr>\<rparr>,
            w \<lparr>submitted := submitted w @ snd (broadcast (dest_broadcaster l) (node env) tx),
               files := StateDB_save (disk env)
                  ((state_db (event_processor l))
                   \<lparr>processed_hashes :=
                      processed_hashes (state_db (event_processor l)) @ [hex (transactionHash ev)]\<rparr>)
                  (files w)\<rparr>)"
proof -
  have "\<not> is_processed (state_db (event_processor l)) (hex (transactionHash ev))"
    using assms(1) by (simp add: process_event_Some_iff)
  moreover have "source_tx_hash tx = transactionHash ev"
    using assms(1) by (rule process_event_source_hash)
  ultimately show ?thesis
    using assms by (simp add: relay_event_def split_beta Let_def mark_as_processed_def)
qed

text \<open>
  The three ways one run of the pipeline can end: the event is rejected by
  \<^verbatim>\<open>process_event\<close>; it is broadcast without a hash coming back; or a hash comes back and
  the source hash is recorded.
\<close>

lemma relay_event_cases:
  obtains
    (rejected) "process_event (event_processor l) ev = None" "relay_event l env w ev = (l, w)"
  | (not_committed) tx where "process_event (event_processor l) ev = Some tx"
      "\<not> truthy_str (fst (broadcast (dest_broadcaster l) (node env) tx))"
      "relay_event l env w ev =
         (l, w \<lparr>submitted := submitted w @ snd (broadcast (dest_broadcaster l) (node env) tx)\<rparr>)"
  | (committed) tx where "process_event (event_processor l) ev = Some tx"
      "truthy_str (fst (broadcast (dest_broadcaster l) (node env) tx))"
      "relay_event l env w ev =
           (l \<lparr>event_processor := (event_processor l)
                \<lparr>state_db := (state_db (event_processor l))
                   \<lparr>processed_hashes :=
                      processed_hashes (state_db (event_processor l)) @ [hex (transactionHash ev)]\<rparr>\<rparr>\<rparr>,
            w \<lparr>submitted := submitted w @ snd (broadcast (dest_broadcaster l) (node env) tx),
               files := StateDB_save (disk env)
                  ((state_db (event_processor l))
                   \<lparr>processed_hashes :=
                      processed_hashes (state_db (event_processor l)) @ [hex (transactionHash ev)]\<rparr>)
                  (files w)\<rparr>)"
proof (cases "process_event (event_processor l) ev")
  case None
  then show ?thesis using rejected relay_event_None by blast
next
  case (Some tx)
  show ?thesis
  proof (cases "truthy_str (fst (broadcast (dest_broadcaster l) (node env) tx))")
    case True
    with Some show ?thesis using committed relay_event_committed by blast
  next
    case False
    with Some show ?thesis using not_committed relay_event_not_committed by blast
  qed
qed

lemma relay_event_distinct:
  assumes "distinct (processed_hashes (state_db (event_processor l)))"
  shows "distinct (processed_hashes (state_db (event_processor (fst (relay_event l env w ev)))))"
proof (cases rule: relay_event_cases [where l = l and env = env and w = w and ev = ev])
  case rejected
  with assms show ?thesis by simp
next
  case (not_committed tx)
  with assms show ?thesis by simp
next
  case (committed tx)
  from committed(1) have "hex (transactionHash ev) \<notin> set (processed_hashes (state_db (event_processor l)))"
    by (simp add: process_event_Some_iff is_processed_def)
  with assms committed(3) show ?thesis by simp
qed

lemma relay_event_submitted:
  "length (submitted (snd (relay_event l env w ev))) \<le> length (submitted w) + 1"
proof (cases rule: relay_event_cases [where l = l and env = env and w = w and ev = ev])
  case rejected
  then show ?thesis by simp
next
  case (not_committed tx)
  with broadcast_sent_le [of "dest_broadcaster l" "node env" tx] show ?thesis by simp
next
  case (committed tx)
  with broadcast_sent_le [of "dest_broadcaster l" "node env" tx] show ?thesis by simp
qed

lemma relay_event_processed:
  "is_processed (state_db (event_processor l)) (hex (transactionHash ev)) \<Longrightarrow>
   relay_event l env w ev = (l, w)"
  by (rule relay_event_None) (rule process_event_processed)

lemma relay_event_commits:
  assumes "process_event (event_processor l) ev = Some tx"
      and "truthy_str (fst (broadcast (dest_broadcaster l) (node env) tx))"
  shows "is_processed (state_db (event_processor (fst (relay_event l env w ev))))
           (hex (transactionHash ev))"
  by (simp add: relay_event_committed [OF assms] is_processed_def)

text \<open>
  An event that is too recent leaves no trace: the loop goes on to the next entry with
  the listener and the world as they were.
\<close>

lemma drain_too_recent:
  "too_recent l latest_block ev \<Longrightarrow>
   drain l latest_block w ((ev, env) # rest) = drain l latest_block w rest"
  by (simp add: handle_event_def)

section \<open>The examples, evaluated\<close>

lemma relayer_state_db: "state_db (event_processor (relayer sim)) = empty_db"
  by (simp add: relayer_def)

lemma process_event_deposit:
  "process_event (event_processor (relayer sim)) (deposit blk) = Some (deposit_tx blk)"
  by (simp add: process_event_Some_iff relayer_def is_processed_def empty_db_def
        deposit_def deposit_args_def dict_get_def deposit_tx_def)

lemma process_event_recorded:
  "process_event (event_processor (recorded l)) (deposit blk) = None"
  by (rule process_event_processed)
     (simp add: recorded_def recorded_db_def is_processed_def deposit_def)

lemma build_transaction_deposit:
  "build_transaction (dest_broadcaster (relayer sim)) (node_with r) (deposit_tx blk)
     = Some mint_payload"
  by (simp add: build_transaction_def relayer_def node_with_def deposit_tx_def mint_payload_def)

lemma broadcast_simulated:
  "broadcast (dest_broadcaster (relayer True)) (node_with r) (deposit_tx blk) = (Some ''51'', [])"
  by (simp add: broadcast_def build_transaction_deposit)
     (simp add: relayer_def node_with_def)

lemma broadcast_confirmed:
  "broadcast (dest_broadcaster (relayer False)) confirmed_node (deposit_tx blk)
     = (Some ''d1'', [mint_payload])"
  by (simp add: broadcast_def confirmed_node_def build_transaction_deposit)
     (simp add: relayer_def node_with_def)

lemma broadcast_failed:
  "broadcast (dest_broadcaster (relayer False)) failed_node (deposit_tx blk)
     = (None, [mint_payload])"
  by (simp add: broadcast_def failed_node_def build_transaction_deposit)
     (simp add: relayer_def node_with_def)

lemma broadcast_timeout:
  "broadcast (dest_broadcaster (relayer False)) timeout_node (deposit_tx blk)
     = (None, [mint_payload])"
  by (simp add: broadcast_def timeout_node_def build_transaction_deposit)
     (simp add: relayer_def node_with_def)

lemma relay_simulated:
  "relay_event (relayer True) \<lparr>node = node_with r, disk = Written\<rparr> fresh_world (deposit blk)
     = (recorded (relayer True), fresh_world \<lparr>files := recorded_files\<rparr>)"
proof -
  have "truthy_str (fst (broadcast (dest_broadcaster (relayer True))
          (node \<lparr>node = node_with r, disk = Written\<rparr>) (deposit_tx blk)))"
    by (simp add: broadcast_simulated)
  from relay_event_committed [OF process_event_deposit this, of fresh_world]
  show ?thesis
    by (simp add: broadcast_simulated relayer_state_db recorded_def recorded_db_def fresh_world_def
          deposit_def StateDB_save_def empty_db_def recorded_files_def)
qed

lemma relay_confirmed:
  "relay_event (relayer False) \<lparr>node = confirmed_node, disk = Written\<rparr> fresh_world (deposit blk)
     = (recorded (relayer False),
        \<lparr>files = recorded_files, submitted = [mint_payload]\<rparr>)"
proof -
  have "truthy_str (fst (broadcast (dest_broadcaster (relayer False))
          (node \<lparr>node = confirmed_node, disk = Written\<rparr>) (deposit_tx blk)))"
    by (simp add: broadcast_confirmed)
  from relay_event_committed [OF process_event_deposit this, of fresh_world]
  show ?thesis
    by (simp add: broadcast_confirmed relayer_state_db recorded_def recorded_db_def fresh_world_def
          deposit_def StateDB_save_def empty_db_def recorded_files_def)
qed

lemma relay_confirmed_again:
  "relay_event (relayer False) \<lparr>node = confirmed_node, disk = Written\<rparr>
      (fresh_world \<lparr>submitted := [mint_payload]\<rparr>) (deposit blk)
     = (recorded (relayer False),
        \<lparr>files = recorded_files, submitted = [mint_payload, mint_payload]\<rparr>)"
proof -
  have "truthy_str (fst (broadcast (dest_broadcaster (relayer False))
          (node \<lparr>node = confirmed_node, disk = Written\<rparr>) (deposit_tx blk)))"
    by (simp add: broadcast_confirmed)
  from relay_event_committed [OF process_event_deposit this,
      of "fresh_world \<lparr>submitted := [mint_payload]\<rparr>"]
  show ?thesis
    by (simp add: broadcast_confirmed relayer_state_db recorded_def recorded_db_def fresh_world_def
          deposit_def StateDB_save_def empty_db_def recorded_files_def)
qed

lemma relay_failed:
  "relay_event (relayer False) \<lparr>node = failed_node, disk = io\<rparr> w (deposit blk)
     = (relayer False, w \<lparr>submitted := submitted w @ [mint_payload]\<rparr>)"
proof -
  have "\<not> truthy_str (fst (broadcast (dest_broadcaster (relayer False))
          (node \<lparr>node = failed_node, disk = io\<rparr>) (deposit_tx blk)))"
    by (simp add: broadcast_failed)
  from relay_event_not_committed [OF process_event_deposit this, of w]
  show ?thesis by (simp add: broadcast_failed)
qed

lemma relay_timeout:
  "relay_event (relayer False) \<lparr>node = timeout_node, disk = io\<rparr> w (deposit blk)
     = (relayer False, w \<lparr>submitted := submitted w @ [mint_payload]\<rparr>)"
proof -
  have "\<not> truthy_str (fst (broadcast (dest_broadcaster (relayer False))
          (node \<lparr>node = timeout_node, disk = io\<rparr>) (deposit_tx blk)))"
    by (simp add: broadcast_timeout)
  from relay_event_not_committed [OF process_event_deposit this, of w]
  show ?thesis by (simp add: broadcast_timeout)
qed

lemma relay_recorded:
  "relay_event (recorded l) env w (deposit blk) = (recorded l, w)"
  by (rule relay_event_None) (rule process_event_recorded)

section \<open>Relaying an event at most once\<close>

text \<open>
  Claim C1, as the code has it. Run the pipeline (\<^verbatim>\<open>process_event\<close>, \<^verbatim>\<open>broadcast\<close>,
  \<^verbatim>\<open>mark_as_processed\<close>) twice on the same event, starting from a list of processed
  hashes without duplicates. Then the list holds the event's hash at most once. If the
  hash is in the list from the start, \<^verbatim>\<open>process_event\<close> returns \<^verbatim>\<open>None\<close> and nothing
  changes: no broadcast, no submission. If the hash is in the list after the first run,
  which is so whenever the first broadcast returned a hash, then the list holds it
  exactly once, the second run returns \<^verbatim>\<open>None\<close> from \<^verbatim>\<open>process_event\<close> and changes
  nothing, and the two runs together submit at most one transaction.
\<close>

theorem relay_twice_at_most_once:
  assumes "distinct (processed_hashes (state_db (event_processor l)))"
      and "relay_event l env1 w ev = (l1, w1)"
      and "relay_twice l env1 env2 w ev = (l2, w2)"
  shows "count_list (processed_hashes (state_db (event_processor l2))) (hex (transactionHash ev)) \<le> 1
       \<and> (is_processed (state_db (event_processor l)) (hex (transactionHash ev)) \<longrightarrow>
            process_event (event_processor l) ev = None \<and> l2 = l \<and> w2 = w)
       \<and> (is_processed (state_db (event_processor l1)) (hex (transactionHash ev)) \<longrightarrow>
            count_list (processed_hashes (state_db (event_processor l2))) (hex (transactionHash ev)) = 1
            \<and> process_event (event_processor l1) ev = None \<and> l2 = l1 \<and> w2 = w1
            \<and> length (submitted w2) \<le> length (submitted w) + 1)
       \<and> (\<forall>tx. process_event (event_processor l) ev = Some tx
              \<and> truthy_str (fst (broadcast (dest_broadcaster l) (node env1) tx))
            \<longrightarrow> is_processed (state_db (event_processor l1)) (hex (transactionHash ev)))"
proof -
  let ?h = "hex (transactionHash ev)"
  have second: "relay_event l1 env2 w1 ev = (l2, w2)"
    using assms(2,3) by (simp add: relay_twice_def)
  have l1: "l1 = fst (relay_event l env1 w ev)" and w1: "w1 = snd (relay_event l env1 w ev)"
    using assms(2) by simp_all
  have l2: "l2 = fst (relay_event l1 env2 w1 ev)"
    using second by simp
  have d1: "distinct (processed_hashes (state_db (event_processor l1)))"
    unfolding l1 using assms(1) by (rule relay_event_distinct)
  have d2: "distinct (processed_hashes (state_db (event_processor l2)))"
    unfolding l2 using d1 by (rule relay_event_distinct)
  have once: "count_list (processed_hashes (state_db (event_processor l2))) ?h \<le> 1"
    using d2 by (simp add: count_list_distinct)
  have already: "process_event (event_processor l) ev = None \<and> l2 = l \<and> w2 = w"
    if p: "is_processed (state_db (event_processor l)) ?h"
  proof -
    have "relay_event l env1 w ev = (l, w)"
      using p by (rule relay_event_processed)
    with assms(2) have same: "l1 = l" "w1 = w" by simp_all
    have "relay_event l env2 w ev = (l, w)"
      using p by (rule relay_event_processed)
    with second same have "l2 = l" "w2 = w" by simp_all
    with p show ?thesis by (simp add: process_event_processed)
  qed
  have after_first: "count_list (processed_hashes (state_db (event_processor l2))) ?h = 1
            \<and> process_event (event_processor l1) ev = None \<and> l2 = l1 \<and> w2 = w1
            \<and> length (submitted w2) \<le> length (submitted w) + 1"
    if p: "is_processed (state_db (event_processor l1)) ?h"
  proof -
    have "relay_event l1 env2 w1 ev = (l1, w1)"
      using p by (rule relay_event_processed)
    with second have same: "l2 = l1" "w2 = w1" by simp_all
    have "count_list (processed_hashes (state_db (event_processor l1))) ?h = 1"
      using d1 p by (simp add: count_list_distinct is_processed_def)
    moreover have "length (submitted w1) \<le> length (submitted w) + 1"
      unfolding w1 by (rule relay_event_submitted)
    ultimately show ?thesis
      using same p by (simp add: process_event_processed)
  qed
  have commits: "is_processed (state_db (event_processor l1)) ?h"
    if "process_event (event_processor l) ev = Some tx
        \<and> truthy_str (fst (broadcast (dest_broadcaster l) (node env1) tx))" for tx
    unfolding l1 using that by (simp add: relay_event_commits)
  from once already after_first commits show ?thesis by blast
qed

theorem relay_twice_at_most_once_witness:
  "distinct (processed_hashes (state_db (event_processor (relayer False))))
   \<and> is_processed (state_db (event_processor (recorded (relayer False))))
       (hex (transactionHash (deposit (Some 100))))
   \<and> relay_twice (relayer False) \<lparr>node = confirmed_node, disk = Written\<rparr>
        \<lparr>node = confirmed_node, disk = Written\<rparr> fresh_world (deposit (Some 100))
       = (recorded (relayer False), \<lparr>files = recorded_files, submitted = [mint_payload]\<rparr>)
   \<and> count_list (processed_hashes (state_db (event_processor (recorded (relayer False)))))
       (hex (transactionHash (deposit (Some 100)))) = 1
   \<and> process_event (event_processor (recorded (relayer False))) (deposit (Some 100)) = None"
proof -
  have d: "distinct (processed_hashes (state_db (event_processor (relayer False))))"
    by (simp add: relayer_state_db empty_db_def)
  have p: "is_processed (state_db (event_processor (recorded (relayer False))))
             (hex (transactionHash (deposit (Some 100))))"
    by (simp add: recorded_def recorded_db_def is_processed_def deposit_def)
  have twice: "relay_twice (relayer False) \<lparr>node = confirmed_node, disk = Written\<rparr>
        \<lparr>node = confirmed_node, disk = Written\<rparr> fresh_world (deposit (Some 100))
       = (recorded (relayer False), \<lparr>files = recorded_files, submitted = [mint_payload]\<rparr>)"
    by (simp add: relay_twice_def relay_confirmed relay_recorded)
  from relay_twice_at_most_once [OF d relay_confirmed twice] d p twice show ?thesis
    by simp
qed

text \<open>
  Claim C1 as stated fails. In live mode a first run whose receipt reports failure
  submits the mint transaction and records nothing, so the second run submits it again:
  two submissions for one event. When neither run is confirmed there are two submissions
  and the list of processed hashes stays empty.
\<close>

theorem relay_twice_resubmits:
  "relay_twice (relayer False) \<lparr>node = failed_node, disk = Written\<rparr>
      \<lparr>node = confirmed_node, disk = Written\<rparr> fresh_world (deposit (Some 100))
     = (recorded (relayer False),
        \<lparr>files = recorded_files, submitted = [mint_payload, mint_payload]\<rparr>)
   \<and> relay_twice (relayer False) \<lparr>node = timeout_node, disk = Written\<rparr>
      \<lparr>node = failed_node, disk = Written\<rparr> fresh_world (deposit (Some 100))
     = (relayer False, fresh_world \<lparr>submitted := [mint_payload, mint_payload]\<rparr>)
   \<and> processed_hashes (state_db (event_processor (relayer False))) = []"
proof -
  have none: "submitted fresh_world = []"
    by (simp add: fresh_world_def)
  show ?thesis
    by (simp add: relay_twice_def relay_failed relay_timeout none relay_confirmed_again
          relayer_state_db empty_db_def)
qed

section \<open>The commit point\<close>

text \<open>
  Claim C2. In live mode, a receipt whose status is not 1 (failed) or no receipt within
  the timeout leaves the listener, its list of processed hashes and the files as they
  were. Whenever a run of the pipeline changes the list or the files, \<^verbatim>\<open>broadcast\<close>
  returned a non-empty hash, which is the hash of the signed transaction in simulate mode
  and, in live mode, the hash of the sent transaction whose receipt has status 1.
\<close>

theorem commit_point_only_on_success:
  assumes "relay_event l env w ev = (l', w')"
  shows "(\<not> simulate_only (dest_broadcaster l)
            \<and> (receipt_reply (node env) = None
                 \<or> (\<exists>r. receipt_reply (node env) = Some r \<and> status r \<noteq> 1))
          \<longrightarrow> l' = l \<and> files w' = files w)
       \<and> (l' \<noteq> l \<or> files w' \<noteq> files w \<longrightarrow>
            (\<exists>tx h. process_event (event_processor l) ev = Some tx
               \<and> fst (broadcast (dest_broadcaster l) (node env) tx) = Some h \<and> h \<noteq> []
               \<and> (if simulate_only (dest_broadcaster l)
                   then \<exists>sh. signed_hash (node env) = Some sh \<and> h = hex sh
                   else \<exists>th r. send_reply (node env) = Some th
                          \<and> receipt_reply (node env) = Some r \<and> status r = 1 \<and> h = hex th)))"
proof (cases rule: relay_event_cases [where l = l and env = env and w = w and ev = ev])
  case rejected
  with assms show ?thesis by simp
next
  case (not_committed tx)
  with assms show ?thesis by auto
next
  case (committed tx)
  from committed(2) obtain h
    where h: "fst (broadcast (dest_broadcaster l) (node env) tx) = Some h" "h \<noteq> []"
    by (auto simp: truthy_str_iff)
  have live: "\<not> (\<not> simulate_only (dest_broadcaster l)
            \<and> (receipt_reply (node env) = None
                 \<or> (\<exists>r. receipt_reply (node env) = Some r \<and> status r \<noteq> 1)))"
  proof
    assume a: "\<not> simulate_only (dest_broadcaster l)
            \<and> (receipt_reply (node env) = None
                 \<or> (\<exists>r. receipt_reply (node env) = Some r \<and> status r \<noteq> 1))"
    have "fst (broadcast (dest_broadcaster l) (node env) tx) = None"
      by (rule broadcast_failed_or_timeout) (use a in blast)+
    with h(1) show False by simp
  qed
  have "if simulate_only (dest_broadcaster l)
        then \<exists>sh. signed_hash (node env) = Some sh \<and> h = hex sh
        else \<exists>th r. send_reply (node env) = Some th
               \<and> receipt_reply (node env) = Some r \<and> status r = 1 \<and> h = hex th"
    using h(1) unfolding broadcast_Some_iff by (auto split: if_splits)
  with committed(1) h live show ?thesis by blast
qed

theorem commit_point_only_on_success_witness:
  "\<not> simulate_only (dest_broadcaster (relayer False))
   \<and> receipt_reply (node \<lparr>node = timeout_node, disk = Written\<rparr>) = None
   \<and> fst (relay_event (relayer False) \<lparr>node = timeout_node, disk = Written\<rparr> fresh_world
           (deposit (Some 100))) = relayer False
   \<and> files (snd (relay_event (relayer False) \<lparr>node = timeout_node, disk = Written\<rparr> fresh_world
           (deposit (Some 100)))) = files fresh_world
   \<and> recorded (relayer False) \<noteq> relayer False
   \<and> (\<exists>tx h. process_event (event_processor (relayer False)) (deposit (Some 100)) = Some tx
         \<and> fst (broadcast (dest_broadcaster (relayer False)) confirmed_node tx) = Some h
         \<and> h \<noteq> []
         \<and> (\<exists>th r. send_reply confirmed_node = Some th
                \<and> receipt_reply confirmed_node = Some r \<and> status r = 1 \<and> h = hex th))"
proof -
  let ?lost = "relay_event (relayer False) \<lparr>node = timeout_node, disk = Written\<rparr> fresh_world
                 (deposit (Some 100))"
  have live: "\<not> simulate_only (dest_broadcaster (relayer False))"
    by (simp add: relayer_def)
  have timeout: "receipt_reply (node \<lparr>node = timeout_node, disk = Written\<rparr>) = None"
    by (simp add: timeout_node_def node_with_def)
  have "?lost = (fst ?lost, snd ?lost)"
    by simp
  from commit_point_only_on_success [OF this] live timeout
  have kept: "fst ?lost = relayer False \<and> files (snd ?lost) = files fresh_world"
    by blast
  have c: "relay_event (relayer False) \<lparr>node = confirmed_node, disk = Written\<rparr> fresh_world
             (deposit (Some 100))
           = (recorded (relayer False), \<lparr>files = recorded_files, submitted = [mint_payload]\<rparr>)"
    by (rule relay_confirmed)
  have changed: "recorded (relayer False) \<noteq> relayer False"
  proof
    assume "recorded (relayer False) = relayer False"
    then have "processed_hashes (state_db (event_processor (recorded (relayer False))))
                 = processed_hashes (state_db (event_processor (relayer False)))"
      by simp
    then show False
      by (simp add: recorded_def recorded_db_def relayer_def empty_db_def)
  qed
  from changed live commit_point_only_on_success [OF c]
  have "\<exists>tx h. process_event (event_processor (relayer False)) (deposit (Some 100)) = Some tx
         \<and> fst (broadcast (dest_broadcaster (relayer False)) confirmed_node tx) = Some h
         \<and> h \<noteq> []
         \<and> (\<exists>th r. send_reply confirmed_node = Some th
                \<and> receipt_reply confirmed_node = Some r \<and> status r = 1 \<and> h = hex th)"
    by simp
  with live timeout kept changed show ?thesis
    by blast
qed

section \<open>The confirmation gate\<close>

text \<open>
  Claim C3, as the code has it. For an event with a block number \<open>H\<close> other than 0, the
  gate lets the event through exactly when \<open>cur - H \<ge> confirmation_blocks\<close>: with six
  confirmation blocks the event is skipped, and nothing changes, while \<open>cur < H + 6\<close>,
  and it is handed to the pipeline once \<open>cur \<ge> H + 6\<close>.
\<close>

theorem confirmation_gate_nonzero_block:
  assumes "blockNumber ev = Some H" and "H \<noteq> 0"
  shows "(too_recent l cur ev \<longleftrightarrow> \<not> cur - H \<ge> confirmation_blocks l)
       \<and> handle_event l cur env w ev
           = (if cur - H \<ge> confirmation_blocks l then relay_event l env w ev else (l, w))
       \<and> (confirmation_blocks l = 6 \<longrightarrow>
            (cur < H + 6 \<longrightarrow> handle_event l cur env w ev = (l, w))
          \<and> (cur \<ge> H + 6 \<longrightarrow> handle_event l cur env w ev = relay_event l env w ev))"
proof -
  have gate: "too_recent l cur ev \<longleftrightarrow> \<not> cur - H \<ge> confirmation_blocks l"
    using assms by (auto simp: too_recent_def)
  then have step: "handle_event l cur env w ev
           = (if cur - H \<ge> confirmation_blocks l then relay_event l env w ev else (l, w))"
    by (simp add: handle_event_def)
  have "confirmation_blocks l = 6 \<longrightarrow>
            (cur < H + 6 \<longrightarrow> handle_event l cur env w ev = (l, w))
          \<and> (cur \<ge> H + 6 \<longrightarrow> handle_event l cur env w ev = relay_event l env w ev)"
    unfolding step by auto
  with gate step show ?thesis by blast
qed

theorem confirmation_gate_nonzero_block_witness:
  "blockNumber (deposit (Some 100)) = Some 100 \<and> (100::int) \<noteq> 0
   \<and> handle_event (relayer False) 100 \<lparr>node = confirmed_node, disk = Written\<rparr> fresh_world
        (deposit (Some 100)) = (relayer False, fresh_world)
   \<and> handle_event (relayer False) 105 \<lparr>node = confirmed_node, disk = Written\<rparr> fresh_world
        (deposit (Some 100)) = (relayer False, fresh_world)
   \<and> handle_event (relayer False) 106 \<lparr>node = confirmed_node, disk = Written\<rparr> fresh_world
        (deposit (Some 100))
       = (recorded (relayer False), \<lparr>files = recorded_files, submitted = [mint_payload]\<rparr>)"
proof -
  have b: "blockNumber (deposit (Some 100)) = Some 100"
    by (simp add: deposit_def)
  have n: "(100::int) \<noteq> 0" by simp
  have d: "confirmation_blocks (relayer False) = 6"
    by (simp add: relayer_def)
  note g = confirmation_gate_nonzero_block [OF b n, of "relayer False" _ "\<lparr>node = confirmed_node, disk = Written\<rparr>" fresh_world]
  from g [of 100] g [of 105] g [of 106] b n d show ?thesis
    by (simp add: relay_confirmed)
qed

text \<open>
  Claim C3 as stated fails for block number 0: with six confirmation blocks and the
  latest block 3, the difference 3 is below 6, yet the event is not held back; it is
  broadcast and recorded.
\<close>

theorem confirmation_gate_block_zero:
  "(3::int) - 0 < confirmation_blocks (relayer False)
   \<and> \<not> too_recent (relayer False) 3 (deposit (Some 0))
   \<and> handle_event (relayer False) 3 \<lparr>node = confirmed_node, disk = Written\<rparr> fresh_world
        (deposit (Some 0))
       = (recorded (relayer False), \<lparr>files = recorded_files, submitted = [mint_payload]\<rparr>)"
  by (simp add: handle_event_def too_recent_def deposit_def [of "Some 0"] relayer_def [of False]
        relay_confirmed [unfolded deposit_def relayer_def] recorded_def)

text \<open>
  Claim C10. An event whose block number is absent, \<^verbatim>\<open>None\<close> or 0 is never held back: the
  test of the gate is false and the event goes to the pipeline in the same turn, whatever
  the latest block and the number of confirmation blocks are.
\<close>

theorem gate_bypassed_without_block_number:
  assumes "blockNumber ev = None \<or> blockNumber ev = Some 0"
  shows "\<not> too_recent l cur ev \<and> handle_event l cur env w ev = relay_event l env w ev"
proof -
  from assms have "\<not> too_recent l cur ev"
    by (auto simp: too_recent_def)
  then show ?thesis
    by (simp add: handle_event_def)
qed

theorem gate_bypassed_without_block_number_witness:
  "(blockNumber (deposit None) = None \<or> blockNumber (deposit None) = Some 0)
   \<and> \<not> too_recent (relayer True) 0 (deposit None)
   \<and> handle_event (relayer True) 0 \<lparr>node = timeout_node, disk = Written\<rparr> fresh_world (deposit None)
       = (recorded (relayer True), fresh_world \<lparr>files := recorded_files\<rparr>)"
proof -
  have b: "blockNumber (deposit None) = None \<or> blockNumber (deposit None) = Some 0"
    by (simp add: deposit_def)
  from gate_bypassed_without_block_number [OF b, of "relayer True" 0 "\<lparr>node = timeout_node, disk = Written\<rparr>" fresh_world] b
  show ?thesis
    by (simp add: relay_simulated timeout_node_def)
qed

section \<open>Deferred events\<close>

text \<open>
  Claim C6, evaluated. The deposit of block 100 is polled when the latest block is 100
  and is held back; the filter returns each entry once, so the next poll, at block 106,
  has no entries. The loop ends as it started: the deposit is never processed, although
  it is final by then.
\<close>

theorem skipped_event_is_dropped:
  "too_recent (relayer False) 100 (deposit (Some 100))
   \<and> \<not> too_recent (relayer False) 106 (deposit (Some 100))
   \<and> run (relayer False) fresh_world
        [Polled 100 [(deposit (Some 100), \<lparr>node = confirmed_node, disk = Written\<rparr>)],
         Polled 106 []]
       = (relayer False, fresh_world)"
  by (simp add: handle_event_def too_recent_def deposit_def relayer_def)

section \<open>Validation\<close>

text \<open>
  Claim C8, as the code has it. An event whose \<^verbatim>\<open>destinationChainId\<close> is not the
  configured chain id is rejected by \<^verbatim>\<open>process_event\<close>. The replay check comes first: if
  the event's hash is already recorded the rejection is the one for an already processed
  event; otherwise it is the one for a different chain, which comes before the check of
  recipient and amount. Either way the pipeline and the loop body leave the listener and
  the world as they were (no hash recorded, no file written, nothing submitted), for
  every latest block and number of confirmation blocks.
\<close>

theorem wrong_destination_dropped:
  assumes "dict_get (args ev) ''destinationChainId'' \<noteq> PyInt (destination_chain_id (event_processor l))"
  shows "process_event (event_processor l) ev = None
       \<and> (\<not> is_processed (state_db (event_processor l)) (hex (transactionHash ev))
            \<longrightarrow> process_event_branch (event_processor l) ev = Inl DifferentChain)
       \<and> (is_processed (state_db (event_processor l)) (hex (transactionHash ev))
            \<longrightarrow> process_event_branch (event_processor l) ev = Inl AlreadyProcessed)
       \<and> relay_event l env w ev = (l, w)
       \<and> handle_event l cur env w ev = (l, w)"
proof -
  have ne: "py_ne_int (dict_get (args ev) ''destinationChainId'')
              (destination_chain_id (event_processor l))"
    using assms by (simp add: py_ne_int_iff)
  have branch: "\<not> is_processed (state_db (event_processor l)) (hex (transactionHash ev))
            \<longrightarrow> process_event_branch (event_processor l) ev = Inl DifferentChain"
    using ne by (simp add: process_event_branch_def)
  have replay: "is_processed (state_db (event_processor l)) (hex (transactionHash ev))
            \<longrightarrow> process_event_branch (event_processor l) ev = Inl AlreadyProcessed"
    by (simp add: process_event_branch_def)
  have none: "process_event (event_processor l) ev = None"
    using ne by (simp add: process_event_def process_event_branch_def)
  then have relay: "relay_event l env w ev = (l, w)"
    by (rule relay_event_None)
  then have "handle_event l cur env w ev = (l, w)"
    by (simp add: handle_event_def)
  with none branch replay relay show ?thesis by blast
qed

theorem wrong_destination_dropped_witness:
  "dict_get (args misrouted) ''destinationChainId''
     \<noteq> PyInt (destination_chain_id (event_processor (relayer False)))
   \<and> process_event (event_processor (relayer False)) misrouted = None
   \<and> process_event_branch (event_processor (relayer False)) misrouted = Inl DifferentChain
   \<and> handle_event (relayer False) 100 \<lparr>node = confirmed_node, disk = Written\<rparr> fresh_world misrouted
       = (relayer False, fresh_world)
   \<and> handle_event (relayer False) 106 \<lparr>node = confirmed_node, disk = Written\<rparr> fresh_world misrouted
       = (relayer False, fresh_world)
   \<and> is_processed (state_db (event_processor (seen_before (relayer False))))
       (hex (transactionHash misrouted))
   \<and> process_event_branch (event_processor (seen_before (relayer False))) misrouted
       = Inl AlreadyProcessed
   \<and> handle_event (seen_before (relayer False)) 106 \<lparr>node = confirmed_node, disk = Written\<rparr>
        fresh_world misrouted = (seen_before (relayer False), fresh_world)"
proof -
  have d: "dict_get (args misrouted) ''destinationChainId''
             \<noteq> PyInt (destination_chain_id (event_processor (relayer False)))"
    by (simp add: misrouted_def dict_get_def relayer_def)
  have n: "\<not> is_processed (state_db (event_processor (relayer False))) (hex (transactionHash misrouted))"
    by (simp add: relayer_state_db is_processed_def empty_db_def)
  have d': "dict_get (args misrouted) ''destinationChainId''
             \<noteq> PyInt (destination_chain_id (event_processor (seen_before (relayer False))))"
    by (simp add: misrouted_def dict_get_def relayer_def seen_before_def)
  have p: "is_processed (state_db (event_processor (seen_before (relayer False))))
             (hex (transactionHash misrouted))"
    by (simp add: seen_before_def is_processed_def misrouted_def empty_db_def)
  note t = wrong_destination_dropped [OF d, of "\<lparr>node = confirmed_node, disk = Written\<rparr>" fresh_world]
  note u = wrong_destination_dropped [OF d', of "\<lparr>node = confirmed_node, disk = Written\<rparr>" fresh_world 106]
  from t [of 100] t [of 106] u d n p show ?thesis
    by blast
qed

text \<open>
  Claim C8 as stated fails. A deposit for chain 1 whose hash \<open>bb\<close> is already recorded
  reaches the replay check first and is rejected as already processed: the test of the
  destination chain is never evaluated for it.
\<close>

theorem wrong_destination_already_processed:
  "dict_get (args misrouted) ''destinationChainId''
     \<noteq> PyInt (destination_chain_id (event_processor (seen_before (relayer False))))
   \<and> process_event_branch (event_processor (seen_before (relayer False))) misrouted
       = Inl AlreadyProcessed"
  by (simp add: process_event_branch_def seen_before_def is_processed_def misrouted_def
        dict_get_def relayer_def empty_db_def)

text \<open>
  Claim C5, as the code has it. The result of \<^verbatim>\<open>process_event\<close> depends on the state DB
  only through whether it holds the event's hash: two processors with the same chain id
  whose state DBs agree on that give the same result on the event, and a state DB that
  holds the hash gives \<^verbatim>\<open>None\<close>.
\<close>

theorem process_event_store_membership_only:
  assumes "is_processed (state_db p) (hex (transactionHash ev))
             = is_processed (state_db q) (hex (transactionHash ev))"
      and "destination_chain_id p = destination_chain_id q"
  shows "process_event_branch p ev = process_event_branch q ev
       \<and> process_event p ev = process_event q ev
       \<and> (is_processed (state_db p) (hex (transactionHash ev)) \<longrightarrow> process_event p ev = None)"
proof -
  have "process_event_branch p ev = process_event_branch q ev"
    using assms by (simp add: process_event_branch_def)
  moreover from this have "process_event p ev = process_event q ev"
    by (simp add: process_event_def)
  moreover have "is_processed (state_db p) (hex (transactionHash ev)) \<longrightarrow> process_event p ev = None"
    by (simp add: process_event_processed)
  ultimately show ?thesis by blast
qed

theorem process_event_store_membership_only_witness:
  "is_processed (state_db (event_processor (relayer False))) (hex (transactionHash (deposit None)))
     = is_processed (empty_db \<lparr>processed_hashes := [''cc'']\<rparr>) (hex (transactionHash (deposit None)))
   \<and> process_event \<lparr>state_db = empty_db \<lparr>processed_hashes := [''cc'']\<rparr>, destination_chain_id = 137\<rparr>
        (deposit None) = Some (deposit_tx None)"
proof -
  have m: "is_processed (state_db (event_processor (relayer False))) (hex (transactionHash (deposit None)))
     = is_processed (state_db \<lparr>state_db = empty_db \<lparr>processed_hashes := [''cc'']\<rparr>,
          destination_chain_id = 137\<rparr>) (hex (transactionHash (deposit None)))"
    by (simp add: relayer_state_db is_processed_def empty_db_def deposit_def)
  have c: "destination_chain_id (event_processor (relayer False))
             = destination_chain_id \<lparr>state_db = empty_db \<lparr>processed_hashes := [''cc'']\<rparr>,
                 destination_chain_id = 137\<rparr>"
    by (simp add: relayer_def)
  from process_event_store_membership_only [OF m c] m show ?thesis
    by (simp add: process_event_deposit)
qed

text \<open>
  Claim C5 as stated fails: the same valid event is accepted with an empty state DB and
  rejected with a state DB that holds its hash.
\<close>

theorem process_event_depends_on_store:
  "process_event \<lparr>state_db = empty_db, destination_chain_id = 137\<rparr> (deposit None)
     = Some (deposit_tx None)
   \<and> process_event \<lparr>state_db = recorded_db, destination_chain_id = 137\<rparr> (deposit None) = None"
  by (simp add: process_event_def process_event_branch_def is_processed_def recorded_db_def
        empty_db_def deposit_def deposit_args_def dict_get_def deposit_tx_def Let_def)

section \<open>The gas price\<close>

text \<open>
  Claim C7, as the code has it. The gas price of the transaction that \<^verbatim>\<open>broadcast\<close>
  builds and sends is the destination chain's suggested price \<^verbatim>\<open>web3.eth.gas_price\<close>.
  What the gas station answers changes neither the transaction nor the result of
  \<^verbatim>\<open>broadcast\<close>, and when the chain's price cannot be read the broadcast fails without a
  submission.
\<close>

theorem gas_price_from_destination_chain:
  "(\<forall>p. build_transaction b nd tx = Some p \<longrightarrow> gas_price nd = Some (tx_gasPrice p))
   \<and> build_transaction b (nd \<lparr>gas_station := api\<rparr>) tx = build_transaction b nd tx
   \<and> broadcast b (nd \<lparr>gas_station := api\<rparr>) tx = broadcast b nd tx
   \<and> (\<forall>p \<in> set (snd (broadcast b nd tx)). gas_price nd = Some (tx_gasPrice p))
   \<and> (gas_price nd = None \<longrightarrow> broadcast b nd tx = (None, []))"
proof -
  have built: "\<forall>p. build_transaction b nd tx = Some p \<longrightarrow> gas_price nd = Some (tx_gasPrice p)"
    by (auto simp: build_transaction_def split: option.splits)
  have same: "build_transaction b (nd \<lparr>gas_station := api\<rparr>) tx = build_transaction b nd tx"
    by (simp add: build_transaction_def split: option.splits)
  then have same_bc: "broadcast b (nd \<lparr>gas_station := api\<rparr>) tx = broadcast b nd tx"
    by (simp add: broadcast_def split: option.splits)
  have "set (snd (broadcast b nd tx)) \<subseteq> set_option (build_transaction b nd tx)"
    by (auto simp: broadcast_def split: option.splits if_splits)
  with built have sent: "\<forall>p \<in> set (snd (broadcast b nd tx)). gas_price nd = Some (tx_gasPrice p)"
    by auto
  have "gas_price nd = None \<longrightarrow> broadcast b nd tx = (None, [])"
    by (simp add: broadcast_def build_transaction_def split: option.splits)
  with built same same_bc sent show ?thesis by blast
qed

theorem gas_price_from_destination_chain_witness:
  "build_transaction (dest_broadcaster (relayer False)) confirmed_node (deposit_tx None)
     = Some mint_payload
   \<and> gas_price confirmed_node = Some (tx_gasPrice mint_payload)
   \<and> mint_payload \<in> set (snd (broadcast (dest_broadcaster (relayer False)) confirmed_node
                               (deposit_tx None)))
   \<and> broadcast (dest_broadcaster (relayer False)) (confirmed_node \<lparr>gas_station := RequestFails\<rparr>)
        (deposit_tx None) = (Some ''d1'', [mint_payload])"
proof -
  have b: "build_transaction (dest_broadcaster (relayer False)) confirmed_node (deposit_tx None)
             = Some mint_payload"
    by (simp add: confirmed_node_def build_transaction_deposit)
  have s: "mint_payload \<in> set (snd (broadcast (dest_broadcaster (relayer False)) confirmed_node
                               (deposit_tx None)))"
    by (simp add: broadcast_confirmed)
  from gas_price_from_destination_chain [of "dest_broadcaster (relayer False)" confirmed_node "deposit_tx None" RequestFails]
    b s show ?thesis
    by (simp add: broadcast_confirmed)
qed

text \<open>
  Claim C7 as stated fails: the gas station is reachable and quotes 50 gwei, the chain
  suggests 30 gwei, and the transaction sent carries 30 gwei.
\<close>

theorem gas_price_oracle_ignored:
  "get_gas_price_from_api (gas_station confirmed_node) = Some 50000000000
   \<and> gas_price confirmed_node = Some 30000000000
   \<and> map tx_gasPrice (snd (broadcast (dest_broadcaster (relayer False)) confirmed_node
                             (deposit_tx None))) = [30000000000]"
  by (simp add: broadcast_confirmed)
     (simp add: get_gas_price_from_api_def to_wei_gwei_def confirmed_node_def node_with_def
        mint_payload_def)

end
